theory Spec2Isabelle
  imports Main "HOL-Library.AList" "HOL-Library.Sublist"
begin

section \<open>Data model of scrape\_arxiv.py\<close>

text \<open>
  A timestamp of the search service. All timestamps of one run carry the same timezone
  (the script reads it off the probe result and builds \<open>now\<close> and \<open>start_date\<close> in it), so
  a timestamp is a point on one time line: the ordinal of its calendar day and the
  microseconds elapsed since midnight of that day. Python compares two such values
  first by day, then by time of day.
\<close>

record datetime =
  ordinal :: int
  micros :: nat

definition dt_less :: "datetime \<Rightarrow> datetime \<Rightarrow> bool" where
  "dt_less a b \<longleftrightarrow> ordinal a < ordinal b \<or> (ordinal a = ordinal b \<and> micros a < micros b)"

text \<open>\<open>dt - timedelta(days=n)\<close> and \<open>dt + timedelta(days=n)\<close>: the time of day is kept.\<close>

definition minus_days :: "datetime \<Rightarrow> int \<Rightarrow> datetime" where
  "minus_days dt n = dt\<lparr>ordinal := ordinal dt - n\<rparr>"

definition plus_days :: "datetime \<Rightarrow> int \<Rightarrow> datetime" where
  "plus_days dt n = dt\<lparr>ordinal := ordinal dt + n\<rparr>"

text \<open>\<open>datetime(sd.year, sd.month, sd.day, tzinfo=tzinfo)\<close>: midnight of the day of \<open>sd\<close>.\<close>

definition midnight :: "datetime \<Rightarrow> datetime" where
  "midnight sd = \<lparr>ordinal = ordinal sd, micros = 0\<rparr>"

record author =
  name :: string

record link =
  href :: string
  link_title :: "string option"

text \<open>
  A result record of the search library. The fields that may be \<open>None\<close> in Python are
  options; the script tests them for truthiness, so \<open>None\<close> and the empty string count
  as absent alike.
\<close>

record result =
  title :: string
  entry_id :: string
  published :: datetime
  updated :: datetime
  authors :: "author list"
  comment :: "string option"
  journal_ref :: "string option"
  doi :: "string option"
  primary_category :: string
  categories :: "string list"
  links :: "link list"
  summary :: string

definition truthy :: "string option \<Rightarrow> bool" where
  "truthy s = (case s of None \<Rightarrow> False | Some t \<Rightarrow> t \<noteq> [])"

text \<open>The text of an optional string that passed the truthiness test.\<close>

definition text_of :: "string option \<Rightarrow> string" where
  "text_of s = (case s of None \<Rightarrow> [] | Some t \<Rightarrow> t)"

section \<open>Constants\<close>

definition DATE_FORMAT :: string where
  "DATE_FORMAT = ''%Y-%m-%d''"

definition MAX_RESULTS :: int where
  "MAX_RESULTS = 300000"

definition MAX_PAPERS_PER_DAY :: int where
  "MAX_PAPERS_PER_DAY = 200"

section \<open>Strings\<close>

definition NL :: string where
  "NL = [CHR 0x0A]"

definition DQ :: string where
  "DQ = [CHR 0x22]"

text \<open>Python's \<open>sep.join(xs)\<close>.\<close>

fun join :: "string \<Rightarrow> string list \<Rightarrow> string" where
  "join sep [] = []"
| "join sep [x] = x"
| "join sep (x # y # ys) = x @ sep @ join sep (y # ys)"

section \<open>format\_result\<close>

text \<open>
  The library's \<open>strftime\<close> is not part of the script: it is a parameter \<open>fmt\<close>, taking
  the format string and the timestamp. The body follows the source statement by
  statement; \<open>m\<close> is the message built so far.
\<close>

definition titled_links :: "result \<Rightarrow> string list" where
  "titled_links r =
     map href (filter (\<lambda>l. truthy (link_title l) \<and> link_title l \<noteq> Some ''pdf'') (links r))"

definition format_result :: "(string \<Rightarrow> datetime \<Rightarrow> string) \<Rightarrow> result \<Rightarrow> string" where
  "format_result fmt r =
    (let m = ''# '' @ title r;
         m = m @ NL @ ''- URL: '' @ entry_id r;
         m = m @ NL @ ''- Published: '' @ fmt DATE_FORMAT (published r);
         m = (if updated r \<noteq> published r
              then m @ '' (updated '' @ fmt DATE_FORMAT (updated r) @ '')'' else m);
         m = m @ NL @ ''- Authors: '' @ join '', '' (map name (authors r));
         m = (if truthy (comment r) then m @ NL @ ''- Comments: '' @ text_of (comment r) else m);
         m = (if truthy (journal_ref r)
              then m @ NL @ ''- Journal: '' @ text_of (journal_ref r) else m);
         m = (if truthy (doi r) then m @ NL @ ''- DOI: '' @ text_of (doi r) else m);
         m = m @ NL @ ''- Primary category: '' @ primary_category r;
         m = m @ NL @ ''- Categories: '' @ join '', '' (categories r);
         links = titled_links r;
         m = (if length links \<noteq> 0 then m @ NL @ ''- Links: '' @ join '', '' links else m);
         m = m @ NL @ ''- Abstract: '' @ DQ @ summary r @ DQ
     in m)"

section \<open>The command line, the search request and the environment\<close>

record args =
  path_output :: string
  categories_arg :: "string list"
  nb_days :: int
  include_updates :: bool

datatype SortCriterion = Relevance | LastUpdatedDate | SubmittedDate

datatype SortOrder = Ascending | Descending

record search =
  query :: string
  id_list :: "string list"
  max_results :: int
  sort_by :: SortCriterion
  sort_order :: SortOrder

text \<open>
  What the script reads from outside itself: the library's \<open>strftime\<close>,
  \<open>os.path.exists\<close>, \<open>os.path.abspath\<close>, the sequence of records the search
  collaborator yields for a request, and the clock (\<open>datetime.now\<close> in the timezone of
  the service).
\<close>

record env =
  strftime :: "string \<Rightarrow> datetime \<Rightarrow> string"
  path_exists :: "string \<Rightarrow> bool"
  abspath :: "string \<Rightarrow> string"
  results :: "search \<Rightarrow> result list"
  now :: datetime

text \<open>
  What a run does to the outside, in order: a request sent to the collaborator, a message
  printed (the argument of \<open>print\<close>), a file opened for writing, filled and closed (path
  and whole contents).
\<close>

datatype event = Query search | Print string | Write string string

datatype error = AssertionError | StopIteration

section \<open>Decimal rendering of integers in f-strings\<close>

definition digit_char :: "nat \<Rightarrow> char" where
  "digit_char n = ''0123456789'' ! n"

function str_nat :: "nat \<Rightarrow> string" where
  "str_nat n = (if n < 10 then [digit_char n] else str_nat (n div 10) @ [digit_char (n mod 10)])"
  by pat_completeness auto
termination
  by (relation "measure id") auto

declare str_nat.simps [simp del]

definition str_int :: "int \<Rightarrow> string" where
  "str_int i = (if i < 0 then CHR ''-'' # str_nat (nat (- i)) else str_nat (nat i))"

section \<open>The day-count table\<close>

text \<open>
  \<open>defaultdict(int)\<close>: a dictionary in insertion order; reading a missing key gives 0.
\<close>

type_synonym table = "(string \<times> int) list"

definition count_of :: "table \<Rightarrow> string \<Rightarrow> int" where
  "count_of t k = (case map_of t k of None \<Rightarrow> 0 | Some c \<Rightarrow> c)"

text \<open>\<open>date_to_count[k] += 1\<close>\<close>

definition incr :: "string \<Rightarrow> table \<Rightarrow> table" where
  "incr k t = AList.update k (count_of t k + 1) t"

section \<open>The consumption loop\<close>

record scan =
  fr :: "result list"
  start_passed :: bool
  date_to_count :: table

definition scan0 :: scan where
  "scan0 = \<lparr>fr = [], start_passed = False, date_to_count = []\<rparr>"

text \<open>\<open>d = r.updated if args.include_updates else r.published\<close>\<close>

definition relevant_date :: "bool \<Rightarrow> result \<Rightarrow> datetime" where
  "relevant_date inc r = (if inc then updated r else published r)"

fun filter_results ::
  "(string \<Rightarrow> datetime \<Rightarrow> string) \<Rightarrow> bool \<Rightarrow> datetime \<Rightarrow> result list \<Rightarrow> scan \<Rightarrow> scan" where
  "filter_results fmt inc start_date [] s = s"
| "filter_results fmt inc start_date (r # rs) s =
     (let d = relevant_date inc r in
      if dt_less d start_date then s\<lparr>start_passed := True\<rparr>
      else filter_results fmt inc start_date rs
             (s\<lparr>date_to_count := incr (fmt DATE_FORMAT d) (date_to_count s),
                fr := fr s @ [r]\<rparr>))"

section \<open>main\<close>

text \<open>The dummy search that is sent first, to read the timezone off its first result.\<close>

definition probe_search :: search where
  "probe_search =
     \<lparr>query = ''language'', id_list = [], max_results = 1,
      sort_by = SubmittedDate, sort_order = Descending\<rparr>"

text \<open>
  \<open>sd = now - timedelta(days=nb_days)\<close>, then
  \<open>start_date = datetime(sd.year, sd.month, sd.day, tzinfo=tzinfo)\<close>.
\<close>

definition get_start_date :: "datetime \<Rightarrow> int \<Rightarrow> datetime" where
  "get_start_date t n = (let sd = minus_days t n in midnight sd)"

text \<open>The request of the real search: query, result cap, sort field and order.\<close>

definition main_search :: "args \<Rightarrow> search" where
  "main_search a =
     (let query = join '' OR '' (map (\<lambda>c. ''cat:'' @ c) (categories_arg a));
          max_results = min (MAX_PAPERS_PER_DAY * nb_days a) MAX_RESULTS;
          sort_by = (if include_updates a then LastUpdatedDate else SubmittedDate);
          sort_order = Descending
      in \<lparr>query = query, id_list = [], max_results = max_results,
          sort_by = sort_by, sort_order = sort_order\<rparr>)"

definition info_msg :: "args \<Rightarrow> string" where
  "info_msg a = NL @ ''INFO: getting papers from last '' @ str_int (nb_days a) @ '' days.''"

definition no_papers_msg :: "args \<Rightarrow> string" where
  "no_papers_msg a =
     (let msg = ''WARNING: No papers found in last '' @ str_int (nb_days a) @ '' days.'';
          msg = msg @ '' Consider increasing --nb_days'';
          msg = (if \<not> include_updates a
                 then msg @ '' or adding the flag --include_updates'' else msg);
          msg = msg @ ''.'' @ NL
      in msg)"

text \<open>The warning of a run that never saw a record older than \<open>start_date\<close>; \<open>cap\<close> is the
  local \<open>max_results\<close> of \<open>main\<close>.\<close>

definition truncation_msg :: "int \<Rightarrow> args \<Rightarrow> string" where
  "truncation_msg cap a =
     (let msg = ''WARNING: max_results ('' @ str_int cap
                  @ '') was too low to get all papers for the last ''
                  @ str_int (nb_days a) @ '' days.'';
          msg = (if cap < MAX_RESULTS
                 then msg @ '' Consider increasing MAX_PAPERS_PER_DAY (''
                        @ str_int MAX_PAPERS_PER_DAY @ '').''
                 else msg @ '' The API limits the number of results to ''
                        @ str_int MAX_RESULTS @ ''.'')
      in msg)"

text \<open>
  Everything written to the output file between \<open>open\<close> and the end of the \<open>with\<close> block.
  Reading \<open>date_to_count[d]\<close> for a day that is not a key yields 0 (and adds the key, which
  no later read depends on).
\<close>

definition count_line ::
  "(string \<Rightarrow> datetime \<Rightarrow> string) \<Rightarrow> datetime \<Rightarrow> table \<Rightarrow> nat \<Rightarrow> string" where
  "count_line fmt start_date t i =
     (let d = fmt DATE_FORMAT (plus_days start_date (int i))
      in ''- '' @ d @ '': '' @ str_int (count_of t d) @ NL)"

definition report ::
  "(string \<Rightarrow> datetime \<Rightarrow> string) \<Rightarrow> args \<Rightarrow> datetime \<Rightarrow> scan \<Rightarrow> string" where
  "report fmt a start_date s =
     (let msg = ''# Distribution of paper count by date of '';
          msg = msg @ (if include_updates a then ''update'' else ''submission'')
      in msg @ NL
         @ concat (map (count_line fmt start_date (date_to_count s)) [0..<nat (nb_days a)])
         @ NL @ ''********************'' @ NL @ NL
         @ concat (map (\<lambda>r. format_result fmt r @ NL @ NL @ NL) (fr s)))"

definition wrote_msg :: "env \<Rightarrow> args \<Rightarrow> scan \<Rightarrow> string" where
  "wrote_msg e a s =
     ''INFO: Wrote '' @ str_int (int (length (fr s))) @ '' results in ''
       @ abspath e (path_output a) @ NL"

text \<open>
  A run: the events in the order they happen, and how the run ends (\<open>Inr ()\<close> for a
  normal return). A failed \<open>assert\<close> raises before anything else happens; \<open>next\<close> on a
  probe that yields nothing raises \<open>StopIteration\<close>.
\<close>

definition main :: "env \<Rightarrow> args \<Rightarrow> event list \<times> (error + unit)" where
  "main e a =
    (if \<not> nb_days a > 0 then ([], Inl AssertionError)
     else if \<not> nb_days a < 367 then ([], Inl AssertionError)
     else if path_exists e (path_output a) then ([], Inl AssertionError)
     else
       (case results e probe_search of
          [] \<Rightarrow> ([Query probe_search], Inl StopIteration)
        | r # _ \<Rightarrow>
           (let start_date = get_start_date (now e) (nb_days a);
                ev = [Query probe_search, Print (info_msg a)];
                search = main_search a;
                ev = ev @ [Query search];
                s = filter_results (strftime e) (include_updates a) start_date
                      (results e search) scan0
            in if length (fr s) = 0 then (ev @ [Print (no_papers_msg a)], Inr ())
               else
                 (let ev = (if \<not> start_passed s
                            then ev @ [Print (truncation_msg (max_results search) a)]
                            else ev);
                      ev = ev @ [Write (path_output a) (report (strftime e) a start_date s)];
                      ev = ev @ [Print (wrote_msg e a s)]
                  in (ev, Inr ())))))"

text \<open>The requests a run sent, and the files it wrote.\<close>

definition queries :: "event list \<Rightarrow> search list" where
  "queries ev = concat (map (\<lambda>x. case x of Query q \<Rightarrow> [q] | _ \<Rightarrow> []) ev)"

definition writes :: "event list \<Rightarrow> (string \<times> string) list" where
  "writes ev = concat (map (\<lambda>x. case x of Write p c \<Rightarrow> [(p, c)] | _ \<Rightarrow> []) ev)"

text \<open>The state of the loop when \<open>main\<close> leaves it.\<close>

definition final_scan :: "env \<Rightarrow> args \<Rightarrow> scan" where
  "final_scan e a =
     filter_results (strftime e) (include_updates a) (get_start_date (now e) (nb_days a))
       (results e (main_search a)) scan0"

section \<open>A stub collaborator\<close>

text \<open>
  Concrete inputs on which the results below are evaluated: timestamps given by day and
  microsecond, a paper with fixed texts, a date formatter that prints the day ordinal, an
  environment whose probe yields one record and whose real search yields \<open>rs\<close>, with the
  clock at day 10, and a command line.
\<close>

definition day :: "int \<Rightarrow> nat \<Rightarrow> datetime" where
  "day n us = \<lparr>ordinal = n, micros = us\<rparr>"

definition stub_paper :: "string \<Rightarrow> datetime \<Rightarrow> datetime \<Rightarrow> result" where
  "stub_paper t p u =
     \<lparr>title = t, entry_id = ''http://arxiv.org/abs/'' @ t, published = p, updated = u,
      authors = [\<lparr>name = ''A. Author''\<rparr>], comment = None, journal_ref = None, doi = None,
      primary_category = ''cs.CL'', categories = [''cs.CL''], links = [],
      summary = ''An abstract.''\<rparr>"

definition stub_fmt :: "string \<Rightarrow> datetime \<Rightarrow> string" where
  "stub_fmt f d = ''day '' @ str_int (ordinal d)"

definition stub_env :: "result list \<Rightarrow> env" where
  "stub_env rs =
     \<lparr>strftime = stub_fmt, path_exists = (\<lambda>p. p = ''taken.md''),
      abspath = (\<lambda>p. ''/tmp/'' @ p),
      results = (\<lambda>q. if q = probe_search then [stub_paper ''probe'' (day 10 0) (day 10 0)]
                      else rs),
      now = day 10 500\<rparr>"

definition stub_args :: "int \<Rightarrow> bool \<Rightarrow> string list \<Rightarrow> args" where
  "stub_args n inc cs =
     \<lparr>path_output = ''out.md'', categories_arg = cs, nb_days = n, include_updates = inc\<rparr>"

section \<open>Timestamps and the day-count table\<close>

lemma dt_not_less_iff: "\<not> dt_less d sd \<longleftrightarrow> d = sd \<or> dt_less sd d"
  by (cases d, cases sd) (auto simp: dt_less_def)

lemma count_of_incr: "count_of (incr k t) k' = (if k' = k then count_of t k + 1 else count_of t k')"
  by (simp add: incr_def count_of_def update_conv')

lemma sum_update:
  "sum_list (map snd (AList.update k v t)) = sum_list (map snd t) - count_of t k + v"
  by (induction t) (auto simp: count_of_def)

lemma sum_incr: "sum_list (map snd (incr k t)) = sum_list (map snd t) + 1"
  by (simp add: incr_def sum_update)

lemma dt_less_trans_le: "dt_less x sd \<Longrightarrow> \<not> dt_less x y \<Longrightarrow> dt_less y sd"
  by (auto simp: dt_less_def)

lemma str_nat_digit: "n < 10 \<Longrightarrow> str_nat n = [digit_char n]"
  by (simp add: str_nat.simps [of n])

lemma str_int_digit: "0 \<le> i \<Longrightarrow> i < 10 \<Longrightarrow> str_int i = [digit_char (nat i)]"
  by (simp add: str_int_def str_nat_digit)

lemma get_start_date_eq:
  "get_start_date t n = \<lparr>ordinal = ordinal t - n, micros = 0\<rparr>"
  by (simp add: get_start_date_def minus_days_def midnight_def)

lemma plus_days_midnight:
  "plus_days \<lparr>ordinal = d, micros = 0\<rparr> i = \<lparr>ordinal = d + i, micros = 0\<rparr>"
  by (simp add: plus_days_def)

lemma relevant_date_eq: "relevant_date inc r = (if inc then updated r else published r)"
  by (simp add: relevant_date_def)

lemma str_int_10: "str_int 10 = ''10''"
  by (simp add: str_int_def str_nat.simps [of 10] str_nat_digit digit_char_def)

lemma str_int_400: "str_int 400 = ''400''"
  by (simp add: str_int_def str_nat.simps [of 400] str_nat.simps [of 40] str_nat_digit
      digit_char_def)

lemma str_int_200: "str_int 200 = ''200''"
  by (simp add: str_int_def str_nat.simps [of 200] str_nat.simps [of 20] str_nat.simps [of 2]
      digit_char_def)

lemma str_int_300000: "str_int 300000 = ''300000''"
  by (simp add: str_int_def str_nat.simps [of 300000] str_nat.simps [of 30000]
      str_nat.simps [of 3000] str_nat.simps [of 300] str_nat.simps [of 30] str_nat.simps [of 3]
      digit_char_def)

section \<open>The loop, by induction on the sequence\<close>

lemma fr_filter_results:
  "fr (filter_results fmt inc sd rs s) =
     fr s @ takeWhile (\<lambda>r. \<not> dt_less (relevant_date inc r) sd) rs"
  by (induction rs arbitrary: s) (auto simp: Let_def)

lemma start_passed_filter_results:
  "start_passed (filter_results fmt inc sd rs s) \<longleftrightarrow>
     start_passed s \<or> (\<exists>r \<in> set rs. dt_less (relevant_date inc r) sd)"
  by (induction rs arbitrary: s) (auto simp: Let_def)

lemma sum_filter_results:
  "sum_list (map snd (date_to_count (filter_results fmt inc sd rs s))) =
     sum_list (map snd (date_to_count s))
       + int (length (takeWhile (\<lambda>r. \<not> dt_less (relevant_date inc r) sd) rs))"
  by (induction rs arbitrary: s) (auto simp: Let_def sum_incr)

lemma count_filter_results:
  "count_of (date_to_count (filter_results fmt inc sd rs s)) k =
     count_of (date_to_count s) k
       + int (length [r \<leftarrow> takeWhile (\<lambda>r. \<not> dt_less (relevant_date inc r) sd) rs.
                       fmt DATE_FORMAT (relevant_date inc r) = k])"
  by (induction rs arbitrary: s) (auto simp: Let_def count_of_incr)

lemma takeWhile_descending:
  "sorted_wrt (\<lambda>x y. \<not> dt_less (relevant_date inc x) (relevant_date inc y)) rs \<Longrightarrow>
   takeWhile (\<lambda>r. \<not> dt_less (relevant_date inc r) sd) rs =
     filter (\<lambda>r. \<not> dt_less (relevant_date inc r) sd) rs"
proof (induction rs)
  case Nil
  then show ?case by simp
next
  case (Cons x xs)
  show ?case
  proof (cases "dt_less (relevant_date inc x) sd")
    case True
    have "\<forall>y \<in> set xs. dt_less (relevant_date inc y) sd"
      using Cons.prems True by (auto intro: dt_less_trans_le)
    then have "filter (\<lambda>r. \<not> dt_less (relevant_date inc r) sd) xs = []"
      by (simp add: filter_empty_conv)
    with True show ?thesis by simp
  next
    case False
    with Cons show ?thesis by simp
  qed
qed

lemma in_window_all_retained:
  assumes "\<forall>r \<in> set rs. \<not> dt_less (if inc then updated r else published r) sd"
  shows "fr (filter_results fmt inc sd rs scan0) = rs
     \<and> \<not> start_passed (filter_results fmt inc sd rs scan0)
     \<and> sum_list (map snd (date_to_count (filter_results fmt inc sd rs scan0)))
         = int (length rs)"
proof -
  have h: "\<forall>r \<in> set rs. \<not> dt_less (relevant_date inc r) sd"
    using assms by (simp add: relevant_date_def)
  then have tw: "takeWhile (\<lambda>r. \<not> dt_less (relevant_date inc r) sd) rs = rs"
    by (simp add: takeWhile_eq_all_conv)
  show ?thesis
    using h
    by (simp add: fr_filter_results start_passed_filter_results sum_filter_results scan0_def tw)
qed

lemma count_final_scan:
  "count_of (date_to_count (final_scan e a)) k =
     int (length [r \<leftarrow> fr (final_scan e a).
                   strftime e DATE_FORMAT (relevant_date (include_updates a) r) = k])"
proof -
  have "count_of [] k = 0" by (simp add: count_of_def)
  then show ?thesis
    by (simp add: final_scan_def count_filter_results fr_filter_results scan0_def)
qed

lemma sum_final_scan:
  "sum_list (map snd (date_to_count (final_scan e a))) = int (length (fr (final_scan e a)))"
  by (simp add: final_scan_def sum_filter_results fr_filter_results scan0_def)

lemma fr_final_scan_all:
  assumes "\<forall>r \<in> set (results e (main_search a)).
             \<not> dt_less (relevant_date (include_updates a) r) (get_start_date (now e) (nb_days a))"
  shows "fr (final_scan e a) = results e (main_search a)"
    and "\<not> start_passed (final_scan e a)"
  using assms
  by (simp_all add: final_scan_def fr_filter_results start_passed_filter_results scan0_def)

lemma report_final_scan:
  "report (strftime e) a sd (final_scan e a) =
     ''# Distribution of paper count by date of ''
       @ (if include_updates a then ''update'' else ''submission'') @ NL
       @ concat (map (\<lambda>i. ''- '' @ strftime e DATE_FORMAT (plus_days sd (int i)) @ '': ''
                   @ str_int (int (length [r \<leftarrow> fr (final_scan e a).
                        strftime e DATE_FORMAT (relevant_date (include_updates a) r)
                          = strftime e DATE_FORMAT (plus_days sd (int i))])) @ NL)
                 [0..<nat (nb_days a)])
       @ NL @ ''********************'' @ NL @ NL
       @ concat (map (\<lambda>r. format_result (strftime e) r @ NL @ NL @ NL) (fr (final_scan e a)))"
  by (simp add: report_def Let_def count_line_def [abs_def] count_final_scan)

section \<open>The runs of main\<close>

text \<open>The days that get a count line run from \<open>nb_days\<close> days before \<open>now\<close> to the day before it.\<close>

lemma count_line_days:
  "ordinal (plus_days (get_start_date t n) (int i)) = ordinal t - n + int i"
  by (simp add: plus_days_def get_start_date_def minus_days_def midnight_def)

lemma max_results_main_search:
  "max_results (main_search a) = min (MAX_PAPERS_PER_DAY * nb_days a) MAX_RESULTS"
  by (simp add: main_search_def Let_def)

lemma main_search_eq:
  "main_search a =
     \<lparr>query = join '' OR '' (map (\<lambda>c. ''cat:'' @ c) (categories_arg a)), id_list = [],
      max_results = min (200 * nb_days a) 300000,
      sort_by = (if include_updates a then LastUpdatedDate else SubmittedDate),
      sort_order = Descending\<rparr>"
  by (simp add: main_search_def Let_def MAX_PAPERS_PER_DAY_def MAX_RESULTS_def)

lemma query_main_search:
  "query (main_search a) = join '' OR '' (map (\<lambda>c. ''cat:'' @ c) (categories_arg a))"
  by (simp add: main_search_def Let_def)

lemma main_rejects:
  "nb_days a \<le> 0 \<or> 367 \<le> nb_days a \<or> path_exists e (path_output a) \<Longrightarrow>
     main e a = ([], Inl AssertionError)"
  by (auto simp: main_def)

lemma main_probe_empty:
  "0 < nb_days a \<Longrightarrow> nb_days a < 367 \<Longrightarrow> \<not> path_exists e (path_output a) \<Longrightarrow>
   results e probe_search = [] \<Longrightarrow> main e a = ([Query probe_search], Inl StopIteration)"
  by (simp add: main_def)

lemma main_no_papers:
  "0 < nb_days a \<Longrightarrow> nb_days a < 367 \<Longrightarrow> \<not> path_exists e (path_output a) \<Longrightarrow>
   results e probe_search \<noteq> [] \<Longrightarrow> fr (final_scan e a) = [] \<Longrightarrow>
   main e a =
     ([Query probe_search, Print (info_msg a), Query (main_search a), Print (no_papers_msg a)],
      Inr ())"
  by (simp add: main_def final_scan_def Let_def split: list.splits)

lemma main_truncated:
  "0 < nb_days a \<Longrightarrow> nb_days a < 367 \<Longrightarrow> \<not> path_exists e (path_output a) \<Longrightarrow>
   results e probe_search \<noteq> [] \<Longrightarrow> fr (final_scan e a) \<noteq> [] \<Longrightarrow>
   \<not> start_passed (final_scan e a) \<Longrightarrow>
   main e a =
     ([Query probe_search, Print (info_msg a), Query (main_search a),
       Print (truncation_msg (max_results (main_search a)) a),
       Write (path_output a)
         (report (strftime e) a (get_start_date (now e) (nb_days a)) (final_scan e a)),
       Print (wrote_msg e a (final_scan e a))],
      Inr ())"
  by (simp add: main_def final_scan_def Let_def split: list.splits)

lemma main_covered:
  "0 < nb_days a \<Longrightarrow> nb_days a < 367 \<Longrightarrow> \<not> path_exists e (path_output a) \<Longrightarrow>
   results e probe_search \<noteq> [] \<Longrightarrow> fr (final_scan e a) \<noteq> [] \<Longrightarrow>
   start_passed (final_scan e a) \<Longrightarrow>
   main e a =
     ([Query probe_search, Print (info_msg a), Query (main_search a),
       Write (path_output a)
         (report (strftime e) a (get_start_date (now e) (nb_days a)) (final_scan e a)),
       Print (wrote_msg e a (final_scan e a))],
      Inr ())"
  by (simp add: main_def final_scan_def Let_def split: list.splits)

lemma queries_simps:
  "queries [] = []" "queries (Query q # ev) = q # queries ev"
  "queries (Print m # ev) = queries ev" "queries (Write p c # ev) = queries ev"
  by (simp_all add: queries_def)

lemma writes_simps:
  "writes [] = []" "writes (Query q # ev) = writes ev"
  "writes (Print m # ev) = writes ev" "writes (Write p c # ev) = (p, c) # writes ev"
  by (simp_all add: writes_def)

lemma main_cases:
  assumes "0 < nb_days a" "nb_days a < 367" "\<not> path_exists e (path_output a)"
    and "results e probe_search \<noteq> []"
  shows "queries (fst (main e a)) = [probe_search, main_search a]"
proof (cases "fr (final_scan e a) = []")
  case True
  show ?thesis by (simp add: main_no_papers [OF assms True] queries_simps)
next
  case False
  show ?thesis
  proof (cases "start_passed (final_scan e a)")
    case True
    show ?thesis by (simp add: main_covered [OF assms False True] queries_simps)
  next
    case np: False
    show ?thesis by (simp add: main_truncated [OF assms False np] queries_simps)
  qed
qed

section \<open>The text of a formatted record\<close>

lemma format_result_flat:
  "format_result fmt r =
     (''# '' @ title r @ NL @ ''- URL: '' @ entry_id r @ NL @ ''- Published: ''
        @ fmt DATE_FORMAT (published r))
     @ (if updated r = published r then []
        else '' (updated '' @ fmt DATE_FORMAT (updated r) @ '')'')
     @ (NL @ ''- Authors: '' @ join '', '' (map name (authors r)))
     @ (if truthy (comment r) then NL @ ''- Comments: '' @ text_of (comment r) else [])
     @ (if truthy (journal_ref r) then NL @ ''- Journal: '' @ text_of (journal_ref r) else [])
     @ (if truthy (doi r) then NL @ ''- DOI: '' @ text_of (doi r) else [])
     @ (NL @ ''- Primary category: '' @ primary_category r)
     @ (NL @ ''- Categories: '' @ join '', '' (categories r))
     @ (if titled_links r = [] then [] else NL @ ''- Links: '' @ join '', '' (titled_links r))
     @ (NL @ ''- Abstract: '' @ DQ @ summary r @ DQ)"
  unfolding format_result_def Let_def by (simp del: append_assoc add: append_assoc)

lemma titled_links_empty_iff:
  "titled_links r = [] \<longleftrightarrow>
     \<not> (\<exists>l \<in> set (links r). truthy (link_title l) \<and> link_title l \<noteq> Some ''pdf'')"
  unfolding titled_links_def by (simp add: filter_empty_conv)

section \<open>Results\<close>

text \<open>
  C1. Whatever sequence the collaborator returns, the loop retains, in order, the records
  up to the first one whose tested date is strictly earlier than \<open>start_date\<close>, the
  tested date being \<open>updated\<close> when \<open>include_updates\<close> is set and \<open>published\<close>
  otherwise; it stops there, and \<open>start_passed\<close> is set exactly when such a record
  exists. A record dated \<open>start_date\<close> itself passes the test; in a sequence that
  descends by the tested date every such record is retained.
\<close>

theorem consumption_loop_window:
  "fr (filter_results fmt inc sd rs scan0) =
     takeWhile (\<lambda>r. (if inc then updated r else published r) = sd
                    \<or> dt_less sd (if inc then updated r else published r)) rs
   \<and> (start_passed (filter_results fmt inc sd rs scan0)
        \<longleftrightarrow> (\<exists>r \<in> set rs. dt_less (if inc then updated r else published r) sd))
   \<and> (sorted_wrt (\<lambda>x y. \<not> dt_less (if inc then updated x else published x)
                              (if inc then updated y else published y)) rs \<longrightarrow>
        (\<forall>r \<in> set rs. (if inc then updated r else published r) = sd \<longrightarrow>
           r \<in> set (fr (filter_results fmt inc sd rs scan0))))"
proof -
  let ?s = "filter_results fmt inc sd rs scan0"
  let ?d = "\<lambda>r. if inc then updated r else published r"
  have rd: "relevant_date inc = ?d"
    by (simp add: relevant_date_def fun_eq_iff)
  have keep: "(\<lambda>r. \<not> dt_less (?d r) sd) = (\<lambda>r. ?d r = sd \<or> dt_less sd (?d r))"
    by (simp only: dt_not_less_iff)
  have a: "fr ?s = takeWhile (\<lambda>r. \<not> dt_less (?d r) sd) rs"
    using fr_filter_results [of fmt inc sd rs scan0] unfolding rd by (simp add: scan0_def)
  have b: "start_passed ?s \<longleftrightarrow> (\<exists>r \<in> set rs. dt_less (?d r) sd)"
    using start_passed_filter_results [of fmt inc sd rs scan0] unfolding rd
    by (simp add: scan0_def)
  have c: "r \<in> set (fr ?s)"
    if "sorted_wrt (\<lambda>x y. \<not> dt_less (?d x) (?d y)) rs" and "r \<in> set rs" and "?d r = sd" for r
  proof -
    have "takeWhile (\<lambda>r. \<not> dt_less (?d r) sd) rs = filter (\<lambda>r. \<not> dt_less (?d r) sd) rs"
      using takeWhile_descending [of inc rs sd] that(1) unfolding rd by simp
    then have "fr ?s = filter (\<lambda>r. \<not> dt_less (?d r) sd) rs"
      using a by simp
    moreover have "\<not> dt_less (?d r) sd"
      unfolding that(3) by (simp add: dt_less_def)
    ultimately show ?thesis using that(2) by simp
  qed
  have a': "fr ?s = takeWhile (\<lambda>r. ?d r = sd \<or> dt_less sd (?d r)) rs"
    using a unfolding keep .
  show ?thesis using a' b c by blast
qed

theorem consumption_loop_window_witness:
  "fr (filter_results stub_fmt True (day 5 0)
         [stub_paper ''p1'' (day 7 3) (day 7 3), stub_paper ''p2'' (day 4 9) (day 5 0),
          stub_paper ''p3'' (day 3 0) (day 3 0)] scan0)
     = [stub_paper ''p1'' (day 7 3) (day 7 3), stub_paper ''p2'' (day 4 9) (day 5 0)]
   \<and> start_passed (filter_results stub_fmt True (day 5 0)
         [stub_paper ''p1'' (day 7 3) (day 7 3), stub_paper ''p2'' (day 4 9) (day 5 0),
          stub_paper ''p3'' (day 3 0) (day 3 0)] scan0)
   \<and> fr (filter_results stub_fmt False (day 5 0)
         [stub_paper ''p1'' (day 7 3) (day 7 3), stub_paper ''p2'' (day 4 9) (day 5 0),
          stub_paper ''p3'' (day 3 0) (day 3 0)] scan0)
     = [stub_paper ''p1'' (day 7 3) (day 7 3)]
   \<and> start_passed (filter_results stub_fmt False (day 5 0)
         [stub_paper ''p1'' (day 7 3) (day 7 3), stub_paper ''p2'' (day 4 9) (day 5 0),
          stub_paper ''p3'' (day 3 0) (day 3 0)] scan0)
   \<and> fr (filter_results stub_fmt False (day 5 0)
         [stub_paper ''q1'' (day 5 1) (day 9 0), stub_paper ''q2'' (day 5 0) (day 8 0)] scan0)
     = [stub_paper ''q1'' (day 5 1) (day 9 0), stub_paper ''q2'' (day 5 0) (day 8 0)]
   \<and> \<not> start_passed (filter_results stub_fmt False (day 5 0)
         [stub_paper ''q1'' (day 5 1) (day 9 0), stub_paper ''q2'' (day 5 0) (day 8 0)] scan0)"
  using consumption_loop_window [of stub_fmt True "day 5 0"
         "[stub_paper ''p1'' (day 7 3) (day 7 3), stub_paper ''p2'' (day 4 9) (day 5 0),
           stub_paper ''p3'' (day 3 0) (day 3 0)]"]
    consumption_loop_window [of stub_fmt False "day 5 0"
         "[stub_paper ''p1'' (day 7 3) (day 7 3), stub_paper ''p2'' (day 4 9) (day 5 0),
           stub_paper ''p3'' (day 3 0) (day 3 0)]"]
    consumption_loop_window [of stub_fmt False "day 5 0"
         "[stub_paper ''q1'' (day 5 1) (day 9 0), stub_paper ''q2'' (day 5 0) (day 8 0)]"]
  by (simp add: stub_paper_def day_def dt_less_def)

text \<open>
  C2. The histogram loop writes the lines of \<open>start_date + i\<close> for \<open>i\<close> in
  \<open>range(nb_days)\<close>, while the filter loop retains and tallies every record from
  \<open>start_date\<close> up to \<open>now\<close>. With the clock at day 10, \<open>nb_days = 2\<close>, one record of day
  10 and one of day 9: \<open>start_date\<close> is midnight of day 8, both records are retained, the
  table holds 1 for day 10 and 1 for day 9, and the file written has the lines of day 8
  and day 9 only. The day of \<open>now\<close>, a day of the window with a record in it, gets no count
  line, and the counts shown add up to 1 for 2 listed records.
\<close>

theorem day_of_now_has_no_count_line:
  "get_start_date (now (stub_env [stub_paper ''b'' (day 10 100) (day 10 100),
                                  stub_paper ''a'' (day 9 0) (day 9 0)]))
       (nb_days (stub_args 2 False [''cs.CL''])) = \<lparr>ordinal = 8, micros = 0\<rparr>
   \<and> \<not> dt_less (published (stub_paper ''b'' (day 10 100) (day 10 100)))
          \<lparr>ordinal = 8, micros = 0\<rparr>
   \<and> \<not> dt_less (now (stub_env [stub_paper ''b'' (day 10 100) (day 10 100),
                                  stub_paper ''a'' (day 9 0) (day 9 0)]))
          (published (stub_paper ''b'' (day 10 100) (day 10 100)))
   \<and> final_scan
        (stub_env [stub_paper ''b'' (day 10 100) (day 10 100),
                   stub_paper ''a'' (day 9 0) (day 9 0)])
        (stub_args 2 False [''cs.CL'']) =
       \<lparr>fr = [stub_paper ''b'' (day 10 100) (day 10 100), stub_paper ''a'' (day 9 0) (day 9 0)],
        start_passed = False,
        date_to_count = [(''day 10'', 1), (''day 9'', 1)]\<rparr>
   \<and> main
        (stub_env [stub_paper ''b'' (day 10 100) (day 10 100),
                   stub_paper ''a'' (day 9 0) (day 9 0)])
        (stub_args 2 False [''cs.CL'']) =
       ([Query probe_search,
         Print (NL @ ''INFO: getting papers from last 2 days.''),
         Query \<lparr>query = ''cat:cs.CL'', id_list = [], max_results = 400,
                sort_by = SubmittedDate, sort_order = Descending\<rparr>,
         Print (''WARNING: max_results (400) was too low to get all papers for the last 2 days.''
                @ '' Consider increasing MAX_PAPERS_PER_DAY (200).''),
         Write ''out.md''
           (''# Distribution of paper count by date of submission'' @ NL
            @ ''- day 8: 0'' @ NL @ ''- day 9: 1'' @ NL
            @ NL @ ''********************'' @ NL @ NL
            @ format_result stub_fmt (stub_paper ''b'' (day 10 100) (day 10 100)) @ NL @ NL @ NL
            @ format_result stub_fmt (stub_paper ''a'' (day 9 0) (day 9 0)) @ NL @ NL @ NL),
         Print (''INFO: Wrote 2 results in /tmp/out.md'' @ NL)],
        Inr ())"
proof -
  let ?rs = "[stub_paper ''b'' (day 10 100) (day 10 100), stub_paper ''a'' (day 9 0) (day 9 0)]"
  let ?e = "stub_env ?rs"
  let ?a = "stub_args 2 False [''cs.CL'']"
  have k: "stub_fmt f (day n us) = ''day '' @ str_int n" for f n us
    by (simp add: stub_fmt_def day_def)
  have f: "nb_days ?a = 2" "include_updates ?a = False" "path_output ?a = ''out.md''"
    "categories_arg ?a = [''cs.CL'']" "strftime ?e = stub_fmt" "now ?e = day 10 500"
    "abspath ?e = (\<lambda>p. ''/tmp/'' @ p)"
    by (simp_all add: stub_args_def stub_env_def)
  have sd: "get_start_date (now ?e) (nb_days ?a) = \<lparr>ordinal = 8, micros = 0\<rparr>"
    unfolding f by (simp add: get_start_date_eq day_def)
  have sd': "get_start_date (day 10 500) 2 = \<lparr>ordinal = 8, micros = 0\<rparr>"
    by (simp add: get_start_date_eq day_def)
  have c2: "\<not> dt_less (published (stub_paper ''b'' (day 10 100) (day 10 100)))
              \<lparr>ordinal = 8, micros = 0\<rparr>"
    by (simp add: stub_paper_def day_def dt_less_def)
  have c3: "\<not> dt_less (now ?e) (published (stub_paper ''b'' (day 10 100) (day 10 100)))"
    unfolding f by (simp add: stub_paper_def day_def dt_less_def)
  have v: "0 < nb_days ?a" "nb_days ?a < 367" "\<not> path_exists ?e (path_output ?a)"
    "results ?e probe_search \<noteq> []"
    by (simp_all add: stub_args_def stub_env_def)
  have r: "results ?e (main_search ?a) = ?rs"
    by (simp add: stub_args_def stub_env_def main_search_def probe_search_def Let_def)
  have fs: "final_scan ?e ?a =
      \<lparr>fr = ?rs, start_passed = False, date_to_count = [(''day 10'', 1), (''day 9'', 1)]\<rparr>"
    unfolding final_scan_def r sd f
    by (simp add: scan0_def relevant_date_def stub_paper_def Let_def k str_int_10 str_int_digit
        digit_char_def incr_def count_of_def)
      (simp add: day_def dt_less_def get_start_date_eq)
  have ne: "fr (final_scan ?e ?a) \<noteq> []" and np: "\<not> start_passed (final_scan ?e ?a)"
    unfolding fs by simp_all
  have m: "main ?e ?a =
       ([Query probe_search,
         Print (NL @ ''INFO: getting papers from last 2 days.''),
         Query \<lparr>query = ''cat:cs.CL'', id_list = [], max_results = 400,
                sort_by = SubmittedDate, sort_order = Descending\<rparr>,
         Print (''WARNING: max_results (400) was too low to get all papers for the last 2 days.''
                @ '' Consider increasing MAX_PAPERS_PER_DAY (200).''),
         Write ''out.md''
           (''# Distribution of paper count by date of submission'' @ NL
            @ ''- day 8: 0'' @ NL @ ''- day 9: 1'' @ NL
            @ NL @ ''********************'' @ NL @ NL
            @ format_result stub_fmt (stub_paper ''b'' (day 10 100) (day 10 100)) @ NL @ NL @ NL
            @ format_result stub_fmt (stub_paper ''a'' (day 9 0) (day 9 0)) @ NL @ NL @ NL),
         Print (''INFO: Wrote 2 results in /tmp/out.md'' @ NL)],
        Inr ())"
    unfolding main_truncated [OF v ne np] sd fs main_search_eq f
    by (simp add: info_msg_def truncation_msg_def wrote_msg_def report_def Let_def f upt_rec
        count_line_def plus_days_def stub_fmt_def str_int_digit str_int_400 str_int_200
        digit_char_def count_of_def MAX_RESULTS_def MAX_PAPERS_PER_DAY_def sd')
  show ?thesis using sd c2 c3 fs m by (intro conjI)
qed

text \<open>
  C3. A run that retains no record prints the warning that suggests a larger
  \<open>--nb_days\<close>, with the suggestion of \<open>--include_updates\<close> added exactly when the flag
  was off, returns normally and writes no file.
\<close>

theorem no_papers_warning:
  assumes "0 < nb_days a" "nb_days a < 367" "\<not> path_exists e (path_output a)"
    and "results e probe_search \<noteq> []"
    and "fr (final_scan e a) = []"
  shows "main e a =
           ([Query probe_search, Print (info_msg a), Query (main_search a),
             Print (''WARNING: No papers found in last '' @ str_int (nb_days a) @ '' days.''
                    @ '' Consider increasing --nb_days''
                    @ (if include_updates a then []
                       else '' or adding the flag --include_updates'')
                    @ ''.'' @ NL)],
            Inr ())
         \<and> writes (fst (main e a)) = []"
  by (simp add: main_no_papers [OF assms] no_papers_msg_def Let_def writes_simps)

theorem no_papers_warning_witness:
  "fr (final_scan (stub_env [stub_paper ''old'' (day 3 0) (day 3 0)])
         (stub_args 2 False [''cs.CL''])) = []
   \<and> writes (fst (main (stub_env [stub_paper ''old'' (day 3 0) (day 3 0)])
                (stub_args 2 False [''cs.CL'']))) = []
   \<and> snd (main (stub_env [stub_paper ''old'' (day 3 0) (day 3 0)])
                (stub_args 2 False [''cs.CL''])) = Inr ()"
proof -
  let ?e = "stub_env [stub_paper ''old'' (day 3 0) (day 3 0)]"
  let ?a = "stub_args 2 False [''cs.CL'']"
  have v: "0 < nb_days ?a" "nb_days ?a < 367" "\<not> path_exists ?e (path_output ?a)"
    "results ?e probe_search \<noteq> []"
    by (simp_all add: stub_args_def stub_env_def)
  have r: "results ?e (main_search ?a) = [stub_paper ''old'' (day 3 0) (day 3 0)]"
    by (simp add: stub_args_def stub_env_def main_search_def probe_search_def Let_def)
  have f: "fr (final_scan ?e ?a) = []"
    unfolding final_scan_def r
    by (simp add: stub_args_def stub_env_def get_start_date_def minus_days_def midnight_def
        day_def relevant_date_def stub_paper_def dt_less_def scan0_def Let_def)
  have w: "writes (fst (main ?e ?a)) = []"
    by (rule no_papers_warning [OF v f, THEN conjunct2])
  have o: "snd (main ?e ?a) = Inr ()"
    by (subst no_papers_warning [OF v f, THEN conjunct1]) simp
  show ?thesis using f w o by simp
qed

text \<open>
  C4. In a run that passes the checks, when the search yields at least one record and
  none of them is older than \<open>start_date\<close> (so a record is retained and the sequence ends
  before \<open>start_date\<close> is passed), the trace is: probe, INFO message, search request,
  the truncation warning, which names the per-day constant when the requested cap is
  below the service's ceiling and the ceiling otherwise, then the file with the header,
  the count lines, the separator and the block of every record, then the closing message.
\<close>

theorem truncation_warning:
  assumes "0 < nb_days a" "nb_days a < 367" "\<not> path_exists e (path_output a)"
    and "results e probe_search \<noteq> []"
    and "results e (main_search a) \<noteq> []"
    and "\<forall>r \<in> set (results e (main_search a)).
           \<not> dt_less (if include_updates a then updated r else published r)
                \<lparr>ordinal = ordinal (now e) - nb_days a, micros = 0\<rparr>"
  shows "main e a =
           ([Query probe_search,
             Print (NL @ ''INFO: getting papers from last '' @ str_int (nb_days a) @ '' days.''),
             Query \<lparr>query = join '' OR '' (map (\<lambda>c. ''cat:'' @ c) (categories_arg a)),
                    id_list = [], max_results = min (200 * nb_days a) 300000,
                    sort_by = (if include_updates a then LastUpdatedDate else SubmittedDate),
                    sort_order = Descending\<rparr>,
             Print (''WARNING: max_results ('' @ str_int (min (200 * nb_days a) 300000)
                    @ '') was too low to get all papers for the last ''
                    @ str_int (nb_days a) @ '' days.''
                    @ (if min (200 * nb_days a) 300000 < 300000
                       then '' Consider increasing MAX_PAPERS_PER_DAY (200).''
                       else '' The API limits the number of results to 300000.'')),
             Write (path_output a)
               (''# Distribution of paper count by date of ''
                @ (if include_updates a then ''update'' else ''submission'') @ NL
                @ concat (map (\<lambda>i. ''- ''
                     @ strftime e ''%Y-%m-%d''
                         \<lparr>ordinal = ordinal (now e) - nb_days a + int i, micros = 0\<rparr>
                     @ '': ''
                     @ str_int (int (length [r \<leftarrow> results e (main_search a).
                          strftime e ''%Y-%m-%d''
                              (if include_updates a then updated r else published r)
                            = strftime e ''%Y-%m-%d''
                                \<lparr>ordinal = ordinal (now e) - nb_days a + int i, micros = 0\<rparr>]))
                     @ NL)
                   [0..<nat (nb_days a)])
                @ NL @ ''********************'' @ NL @ NL
                @ concat (map (\<lambda>r. format_result (strftime e) r @ NL @ NL @ NL)
                           (results e (main_search a)))),
             Print (''INFO: Wrote '' @ str_int (int (length (results e (main_search a))))
                    @ '' results in '' @ abspath e (path_output a) @ NL)],
            Inr ())"
proof -
  have h: "\<forall>r \<in> set (results e (main_search a)).
             \<not> dt_less (relevant_date (include_updates a) r)
                  (get_start_date (now e) (nb_days a))"
    using assms(6) by (simp add: relevant_date_eq get_start_date_eq)
  note all = fr_final_scan_all [OF h]
  have ne: "fr (final_scan e a) \<noteq> []"
    using assms(5) all(1) by simp
  have w: "truncation_msg (max_results (main_search a)) a =
      ''WARNING: max_results ('' @ str_int (min (200 * nb_days a) 300000)
        @ '') was too low to get all papers for the last ''
        @ str_int (nb_days a) @ '' days.''
        @ (if min (200 * nb_days a) 300000 < 300000
           then '' Consider increasing MAX_PAPERS_PER_DAY (200).''
           else '' The API limits the number of results to 300000.'')"
    by (simp add: truncation_msg_def Let_def max_results_main_search
        MAX_PAPERS_PER_DAY_def MAX_RESULTS_def str_int_200 str_int_300000
        del: min_less_iff_conj)
  have rp: "report (strftime e) a (get_start_date (now e) (nb_days a)) (final_scan e a) =
      ''# Distribution of paper count by date of ''
                @ (if include_updates a then ''update'' else ''submission'') @ NL
                @ concat (map (\<lambda>i. ''- ''
                     @ strftime e ''%Y-%m-%d''
                         \<lparr>ordinal = ordinal (now e) - nb_days a + int i, micros = 0\<rparr>
                     @ '': ''
                     @ str_int (int (length [r \<leftarrow> results e (main_search a).
                          strftime e ''%Y-%m-%d''
                              (if include_updates a then updated r else published r)
                            = strftime e ''%Y-%m-%d''
                                \<lparr>ordinal = ordinal (now e) - nb_days a + int i, micros = 0\<rparr>]))
                     @ NL)
                   [0..<nat (nb_days a)])
                @ NL @ ''********************'' @ NL @ NL
                @ concat (map (\<lambda>r. format_result (strftime e) r @ NL @ NL @ NL)
                           (results e (main_search a)))"
    unfolding report_final_scan all(1)
    by (simp add: get_start_date_eq plus_days_midnight relevant_date_eq DATE_FORMAT_def)
  have i: "info_msg a = NL @ ''INFO: getting papers from last '' @ str_int (nb_days a) @ '' days.''"
    by (simp add: info_msg_def)
  have wr: "wrote_msg e a (final_scan e a) =
      ''INFO: Wrote '' @ str_int (int (length (results e (main_search a))))
                    @ '' results in '' @ abspath e (path_output a) @ NL"
    by (simp add: wrote_msg_def all(1))
  have q: "Query (main_search a) =
      Query \<lparr>query = join '' OR '' (map (\<lambda>c. ''cat:'' @ c) (categories_arg a)),
             id_list = [], max_results = min (200 * nb_days a) 300000,
             sort_by = (if include_updates a then LastUpdatedDate else SubmittedDate),
             sort_order = Descending\<rparr>"
    by (simp only: main_search_eq)
  show ?thesis
    unfolding main_truncated [OF assms(1-4) ne all(2)] w rp i wr q ..
qed

theorem truncation_warning_witness:
  "main (stub_env [stub_paper ''new'' (day 9 0) (day 9 0)]) (stub_args 2 False [''cs.CL'']) =
     ([Query probe_search,
       Print (NL @ ''INFO: getting papers from last 2 days.''),
       Query \<lparr>query = ''cat:cs.CL'', id_list = [], max_results = 400,
              sort_by = SubmittedDate, sort_order = Descending\<rparr>,
       Print (''WARNING: max_results (400) was too low to get all papers for the last 2 days.''
              @ '' Consider increasing MAX_PAPERS_PER_DAY (200).''),
       Write ''out.md''
         (''# Distribution of paper count by date of submission'' @ NL
          @ ''- day 8: 0'' @ NL @ ''- day 9: 1'' @ NL
          @ NL @ ''********************'' @ NL @ NL
          @ format_result stub_fmt (stub_paper ''new'' (day 9 0) (day 9 0)) @ NL @ NL @ NL),
       Print (''INFO: Wrote 1 results in /tmp/out.md'' @ NL)],
      Inr ())"
proof -
  let ?rs = "[stub_paper ''new'' (day 9 0) (day 9 0)]"
  let ?e = "stub_env ?rs"
  let ?a = "stub_args 2 False [''cs.CL'']"
  have v: "0 < nb_days ?a" "nb_days ?a < 367" "\<not> path_exists ?e (path_output ?a)"
    "results ?e probe_search \<noteq> []"
    by (simp_all add: stub_args_def stub_env_def)
  have r: "results ?e (main_search ?a) = ?rs"
    by (simp add: stub_args_def stub_env_def main_search_def probe_search_def Let_def)
  have ne: "results ?e (main_search ?a) \<noteq> []"
    unfolding r by simp
  have h: "\<forall>r \<in> set (results ?e (main_search ?a)).
           \<not> dt_less (if include_updates ?a then updated r else published r)
                \<lparr>ordinal = ordinal (now ?e) - nb_days ?a, micros = 0\<rparr>"
    unfolding r by (simp add: stub_args_def stub_env_def stub_paper_def day_def dt_less_def)
  have f: "nb_days ?a = 2" "include_updates ?a = False" "path_output ?a = ''out.md''"
    "categories_arg ?a = [''cs.CL'']" "strftime ?e = stub_fmt" "now ?e = day 10 500"
    "abspath ?e = (\<lambda>p. ''/tmp/'' @ p)"
    by (simp_all add: stub_args_def stub_env_def)
  show ?thesis
    unfolding truncation_warning [OF v ne h] r f
    by (simp add: upt_rec str_int_400 str_int_digit digit_char_def stub_fmt_def day_def
        stub_paper_def)
qed

text \<open>
  C5. With \<open>nb_days\<close> outside the open interval (0, 367), or an output path that exists,
  the run raises the assertion error with no event before it: no request, no message, no
  file.
\<close>

theorem precondition_failure_aborts:
  "nb_days a \<le> 0 \<or> 367 \<le> nb_days a \<or> path_exists e (path_output a) \<Longrightarrow>
     main e a = ([], Inl AssertionError)"
  by (rule main_rejects)

theorem precondition_failure_aborts_witness:
  "main (stub_env []) (stub_args 0 False [''cs.CL'']) = ([], Inl AssertionError)
   \<and> main (stub_env []) (stub_args 367 False [''cs.CL'']) = ([], Inl AssertionError)
   \<and> main (stub_env []) ((stub_args 7 False [''cs.CL''])\<lparr>path_output := ''taken.md''\<rparr>)
       = ([], Inl AssertionError)"
  using precondition_failure_aborts [of "stub_args 0 False [''cs.CL'']" "stub_env []"]
    precondition_failure_aborts [of "stub_args 367 False [''cs.CL'']" "stub_env []"]
    precondition_failure_aborts
      [of "(stub_args 7 False [''cs.CL''])\<lparr>path_output := ''taken.md''\<rparr>" "stub_env []"]
  by (simp add: stub_args_def stub_env_def)

text \<open>
  C6. In a run that passes the checks and gets a probe result, the requests sent are the
  probe (cap 1) and the real search, whose cap is the minimum of 200 times \<open>nb_days\<close> and
  300000.
\<close>

theorem requested_cap:
  assumes "0 < nb_days a" "nb_days a < 367" "\<not> path_exists e (path_output a)"
    and "results e probe_search \<noteq> []"
  shows "map max_results (queries (fst (main e a))) = [1, min (200 * nb_days a) 300000]"
  by (simp add: main_cases [OF assms] max_results_main_search probe_search_def
      MAX_PAPERS_PER_DAY_def MAX_RESULTS_def)

theorem requested_cap_witness:
  "map max_results (queries (fst (main (stub_env []) (stub_args 7 False [''cs.CL''])))) = [1, 1400]"
  using requested_cap [of "stub_args 7 False [''cs.CL'']" "stub_env []"]
  by (simp add: stub_args_def stub_env_def)

text \<open>
  C7. The formatted block starts with the title, URL and publication date, followed by
  the clause \<open>(updated ...)\<close> carrying the formatted \<open>updated\<close> field exactly when
  \<open>updated\<close> differs from \<open>published\<close>, and then by the authors line.
\<close>

theorem updated_clause:
  "prefix (''# '' @ title r @ NL @ ''- URL: '' @ entry_id r @ NL @ ''- Published: ''
            @ fmt DATE_FORMAT (published r)
            @ (if updated r = published r then []
               else '' (updated '' @ fmt DATE_FORMAT (updated r) @ '')'')
            @ NL @ ''- Authors: '')
          (format_result fmt r)
   \<and> (prefix '' (updated ''
         (drop (length (''# '' @ title r @ NL @ ''- URL: '' @ entry_id r @ NL @ ''- Published: ''
            @ fmt DATE_FORMAT (published r))) (format_result fmt r))
       \<longleftrightarrow> updated r \<noteq> published r)"
proof -
  define P where "P = ''# '' @ title r @ NL @ ''- URL: '' @ entry_id r @ NL @ ''- Published: ''
            @ fmt DATE_FORMAT (published r)"
  define C where "C = (if updated r = published r then []
               else '' (updated '' @ fmt DATE_FORMAT (updated r) @ '')'')"
  obtain R where fr: "format_result fmt r = P @ C @ (NL @ ''- Authors: '') @ R"
    unfolding format_result_flat P_def C_def by simp
  have p1: "prefix (P @ C @ NL @ ''- Authors: '') (format_result fmt r)"
    unfolding fr by simp
  have d: "drop (length P) (format_result fmt r) = C @ (NL @ ''- Authors: '') @ R"
    unfolding fr by simp
  have p2: "prefix '' (updated '' (C @ (NL @ ''- Authors: '') @ R) \<longleftrightarrow> updated r \<noteq> published r"
    by (simp add: C_def NL_def)
  have "prefix (P @ C @ NL @ ''- Authors: '') (format_result fmt r)
      \<and> (prefix '' (updated '' (drop (length P) (format_result fmt r))
           \<longleftrightarrow> updated r \<noteq> published r)"
    using p1 p2 unfolding d by (rule conjI)
  then show ?thesis by (simp only: P_def C_def append_assoc)
qed

theorem updated_clause_witness:
  "prefix (''# t'' @ NL @ ''- URL: http://arxiv.org/abs/t'' @ NL @ ''- Published: ''
            @ stub_fmt DATE_FORMAT (day 8 0) @ '' (updated '' @ stub_fmt DATE_FORMAT (day 8 5)
            @ '')'' @ NL @ ''- Authors: '')
          (format_result stub_fmt (stub_paper ''t'' (day 8 0) (day 8 5)))
   \<and> prefix (''# t'' @ NL @ ''- URL: http://arxiv.org/abs/t'' @ NL @ ''- Published: ''
            @ stub_fmt DATE_FORMAT (day 8 0) @ NL @ ''- Authors: '')
          (format_result stub_fmt (stub_paper ''t'' (day 8 0) (day 8 0)))"
  using updated_clause [of "stub_paper ''t'' (day 8 0) (day 8 5)" stub_fmt]
    updated_clause [of "stub_paper ''t'' (day 8 0) (day 8 0)" stub_fmt]
  by (simp add: stub_paper_def day_def)

text \<open>
  C8. A record with no comment, no journal reference, no DOI and no link that has a
  title other than \<open>pdf\<close> is formatted as the seven remaining lines only; and in every
  block the categories line is followed by the links line, listing exactly the links with
  a title other than \<open>pdf\<close> when there is one and absent otherwise, and then by the
  abstract line.
\<close>

theorem optional_lines_omitted:
  "(\<not> truthy (comment r) \<and> \<not> truthy (journal_ref r) \<and> \<not> truthy (doi r)
     \<and> (\<forall>l \<in> set (links r). \<not> truthy (link_title l) \<or> link_title l = Some ''pdf'')
    \<longrightarrow> format_result fmt r =
         ''# '' @ title r @ NL @ ''- URL: '' @ entry_id r @ NL @ ''- Published: ''
          @ fmt DATE_FORMAT (published r)
          @ (if updated r = published r then []
             else '' (updated '' @ fmt DATE_FORMAT (updated r) @ '')'')
          @ NL @ ''- Authors: '' @ join '', '' (map name (authors r))
          @ NL @ ''- Primary category: '' @ primary_category r
          @ NL @ ''- Categories: '' @ join '', '' (categories r)
          @ NL @ ''- Abstract: '' @ DQ @ summary r @ DQ)
   \<and> suffix (NL @ ''- Categories: '' @ join '', '' (categories r)
          @ (if \<exists>l \<in> set (links r). truthy (link_title l) \<and> link_title l \<noteq> Some ''pdf''
             then NL @ ''- Links: '' @ join '', ''
                    (map href [l \<leftarrow> links r. truthy (link_title l) \<and> link_title l \<noteq> Some ''pdf''])
             else [])
          @ NL @ ''- Abstract: '' @ DQ @ summary r @ DQ)
        (format_result fmt r)"
proof (intro conjI impI)
  assume h: "\<not> truthy (comment r) \<and> \<not> truthy (journal_ref r) \<and> \<not> truthy (doi r)
     \<and> (\<forall>l \<in> set (links r). \<not> truthy (link_title l) \<or> link_title l = Some ''pdf'')"
  then have t: "titled_links r = []"
    unfolding titled_links_empty_iff by blast
  show "format_result fmt r =
         ''# '' @ title r @ NL @ ''- URL: '' @ entry_id r @ NL @ ''- Published: ''
          @ fmt DATE_FORMAT (published r)
          @ (if updated r = published r then []
             else '' (updated '' @ fmt DATE_FORMAT (updated r) @ '')'')
          @ NL @ ''- Authors: '' @ join '', '' (map name (authors r))
          @ NL @ ''- Primary category: '' @ primary_category r
          @ NL @ ''- Categories: '' @ join '', '' (categories r)
          @ NL @ ''- Abstract: '' @ DQ @ summary r @ DQ"
    unfolding format_result_flat using h t by simp
next
  define L where "L = (if titled_links r = [] then []
      else NL @ ''- Links: '' @ join '', '' (titled_links r))"
  have L: "(if \<exists>l \<in> set (links r). truthy (link_title l) \<and> link_title l \<noteq> Some ''pdf''
             then NL @ ''- Links: '' @ join '', ''
                    (map href [l \<leftarrow> links r. truthy (link_title l) \<and> link_title l \<noteq> Some ''pdf''])
             else []) = L"
    unfolding L_def titled_links_empty_iff by (simp add: titled_links_def)
  obtain P where "format_result fmt r =
      P @ (NL @ ''- Categories: '' @ join '', '' (categories r)) @ L
        @ (NL @ ''- Abstract: '' @ DQ @ summary r @ DQ)"
    unfolding format_result_flat L_def by (metis append.assoc)
  then show "suffix (NL @ ''- Categories: '' @ join '', '' (categories r)
          @ (if \<exists>l \<in> set (links r). truthy (link_title l) \<and> link_title l \<noteq> Some ''pdf''
             then NL @ ''- Links: '' @ join '', ''
                    (map href [l \<leftarrow> links r. truthy (link_title l) \<and> link_title l \<noteq> Some ''pdf''])
             else [])
          @ NL @ ''- Abstract: '' @ DQ @ summary r @ DQ)
        (format_result fmt r)"
    unfolding L by (simp add: suffix_def)
qed

theorem optional_lines_omitted_witness:
  "format_result stub_fmt
      ((stub_paper ''t'' (day 9 0) (day 9 0))
         \<lparr>comment := Some [], links := [\<lparr>href = ''h1'', link_title = Some ''pdf''\<rparr>,
                                       \<lparr>href = ''h2'', link_title = None\<rparr>]\<rparr>)
    = ''# t'' @ NL @ ''- URL: http://arxiv.org/abs/t'' @ NL @ ''- Published: ''
      @ stub_fmt DATE_FORMAT (day 9 0) @ NL @ ''- Authors: A. Author''
      @ NL @ ''- Primary category: cs.CL'' @ NL @ ''- Categories: cs.CL''
      @ NL @ ''- Abstract: '' @ DQ @ ''An abstract.'' @ DQ"
  using optional_lines_omitted [of
      "(stub_paper ''t'' (day 9 0) (day 9 0))
         \<lparr>comment := Some [], links := [\<lparr>href = ''h1'', link_title = Some ''pdf''\<rparr>,
                                       \<lparr>href = ''h2'', link_title = None\<rparr>]\<rparr>" stub_fmt]
  by (simp add: stub_paper_def truthy_def)

text \<open>
  C9. The first request goes out exactly when \<open>nb_days\<close> lies in (0, 367) and the output
  path does not exist, whatever the categories are; with an empty list of categories and
  a probe result, the query of the real search is the empty string.
\<close>

theorem empty_categories_not_rejected:
  "(fst (main e a) \<noteq> [] \<longleftrightarrow>
      0 < nb_days a \<and> nb_days a < 367 \<and> \<not> path_exists e (path_output a))
   \<and> (0 < nb_days a \<and> nb_days a < 367 \<and> \<not> path_exists e (path_output a) \<longrightarrow>
        hd (fst (main e a)) = Query probe_search)
   \<and> (0 < nb_days a \<and> nb_days a < 367 \<and> \<not> path_exists e (path_output a)
        \<and> results e probe_search \<noteq> [] \<and> categories_arg a = [] \<longrightarrow>
        map query (queries (fst (main e a))) = [''language'', ''''])"
proof -
  have rej: "fst (main e a) = []"
    if "\<not> (0 < nb_days a \<and> nb_days a < 367 \<and> \<not> path_exists e (path_output a))"
    using that main_rejects [of a e] by auto
  have first: "fst (main e a) \<noteq> [] \<and> hd (fst (main e a)) = Query probe_search"
    if v: "0 < nb_days a" "nb_days a < 367" "\<not> path_exists e (path_output a)"
  proof (cases "results e probe_search = []")
    case True
    show ?thesis by (simp add: main_probe_empty [OF v True])
  next
    case ne: False
    show ?thesis
    proof (cases "fr (final_scan e a) = []")
      case True
      show ?thesis by (simp add: main_no_papers [OF v ne True])
    next
      case False
      show ?thesis
      proof (cases "start_passed (final_scan e a)")
        case True
        show ?thesis by (simp add: main_covered [OF v ne False True])
      next
        case np: False
        show ?thesis by (simp add: main_truncated [OF v ne False np])
      qed
    qed
  qed
  have q: "map query (queries (fst (main e a))) = [''language'', '''']"
    if "0 < nb_days a" "nb_days a < 367" "\<not> path_exists e (path_output a)"
      "results e probe_search \<noteq> []" "categories_arg a = []"
    using main_cases [OF that(1-4)] that(5)
    by (simp add: query_main_search probe_search_def)
  show ?thesis using rej first q by blast
qed

theorem empty_categories_not_rejected_witness:
  "fst (main (stub_env []) (stub_args 7 False [])) \<noteq> []
   \<and> hd (fst (main (stub_env []) (stub_args 7 False []))) = Query probe_search
   \<and> map query (queries (fst (main (stub_env []) (stub_args 7 False [])))) = [''language'', '''']"
  using empty_categories_not_rejected [of "stub_env []" "stub_args 7 False []"]
  by (simp add: stub_args_def stub_env_def)

text \<open>
  C10. Every formatted block ends with a line break, \<open>- Abstract: \<close>, a double quote,
  the abstract as it is, and a double quote.
\<close>

theorem abstract_verbatim:
  "suffix (NL @ ''- Abstract: '' @ DQ @ summary r @ DQ) (format_result fmt r)"
proof -
  obtain P where "format_result fmt r = P @ (NL @ ''- Abstract: '' @ DQ @ summary r @ DQ)"
    unfolding format_result_flat by (metis append.assoc)
  then show ?thesis by (simp add: suffix_def)
qed

theorem abstract_verbatim_witness:
  "suffix (NL @ ''- Abstract: '' @ DQ @ (''say '' @ DQ @ ''hi'' @ DQ @ NL @ ''end'') @ DQ)
     (format_result stub_fmt
        ((stub_paper ''t'' (day 8 0) (day 8 0))
           \<lparr>summary := ''say '' @ DQ @ ''hi'' @ DQ @ NL @ ''end''\<rparr>))"
  using abstract_verbatim
    [of "(stub_paper ''t'' (day 8 0) (day 8 0))
           \<lparr>summary := ''say '' @ DQ @ ''hi'' @ DQ @ NL @ ''end''\<rparr>" stub_fmt]
  by (simp add: stub_paper_def)

end
